theory Spec2Isabelle
  imports Main "HOL-Library.Word"
begin

section \<open>Go values shared by the packages\<close>

text \<open>
  Go's \<open>error\<close> values, as far as the modelled packages build or inspect them:
  \<open>errors.New\<close>/\<open>fmt.Errorf\<close> strings, errors handed back by the operating system
  and the standard library, the package variable \<open>ErrVfsLocked\<close> (an identity of its
  own, as \<open>errors.New\<close> allocates one), \<open>sqlite3.Error\<close> with its result code, and
  the struct \<open>DBError\<close> of package database with its two fields.
\<close>

datatype go_error =
    ErrorString string
  | SysError string
  | ErrVfsLocked
  | Sqlite3Error (Code: nat) string
  | DBError (DBName: string) (Err: "go_error option")

text \<open>
  A call either returns or panics (an index out of range is a run-time panic in Go).
\<close>

datatype 'a outcome = Panics | Returns 'a

text \<open>
  \<open>fmt.Sprintf\<close>, for the verbs the repository's format strings use (\<open>%s\<close> and
  \<open>%d\<close>); the operands are passed already rendered as text. \<open>%%\<close> prints a
  percent sign and a verb without an operand prints Go's \<open>%!verb(MISSING)\<close>. Other
  verbs, flags, and operands beyond the verbs (for which Go appends \<open>%!(EXTRA ...)\<close>)
  are outside this model: no format string of the modelled code has them.
\<close>

fun Sprintf :: "string \<Rightarrow> string list \<Rightarrow> string" where
  "Sprintf (c # d # cs) args =
     (if c = CHR ''%'' \<and> d = CHR ''%'' then CHR ''%'' # Sprintf cs args
      else if c = CHR ''%'' \<and> (d = CHR ''s'' \<or> d = CHR ''d'')
      then (case args of
              [] \<Rightarrow> ''%!'' @ [d] @ ''(MISSING)'' @ Sprintf cs []
            | a # rest \<Rightarrow> a @ Sprintf cs rest)
      else c # Sprintf (d # cs) args)"
| "Sprintf cs args = cs"

text \<open>
  The \<open>Error()\<close> method. \<open>DBError.Error\<close> is
  \<open>fmt.Sprintf("<%s>: %s", e.DBName, e.Err)\<close>; a nil error operand of \<open>%s\<close> prints
  as \<open>%!s(<nil>)\<close>.
\<close>

fun Error :: "go_error \<Rightarrow> string" where
  "Error (ErrorString s) = s"
| "Error (SysError s) = s"
| "Error ErrVfsLocked = ''vfs locked''"
| "Error (Sqlite3Error c s) = s"
| "Error (DBError n None) = Sprintf ''<%s>: %s'' [n, ''%!s(<nil>)'']"
| "Error (DBError n (Some e)) = Sprintf ''<%s>: %s'' [n, Error e]"

text \<open>\<open>func DBErr(dbName string, err error) DBError { return DBError{Err: err} }\<close>\<close>

definition DBErr :: "string \<Rightarrow> go_error option \<Rightarrow> go_error" where
  "DBErr dbName err = DBError [] err"


section \<open>Package utils: paths\<close>

text \<open>
  The operating system and the standard library functions the package calls are
  parameters of the model: \<open>os.UserHomeDir\<close>, \<open>os.Getenv\<close>, \<open>os.ExpandEnv\<close>,
  \<open>filepath.Join\<close>, \<open>filepath.EvalSymlinks\<close> and \<open>os.Stat\<close> (of whose result only
  \<open>IsDir()\<close> is read).
\<close>

datatype file_info = FileInfo (IsDir: bool)

record os_env =
  UserHomeDir :: "go_error + string"
  Getenv :: "string \<Rightarrow> string"
  ExpandEnv :: "string \<Rightarrow> string"
  Join :: "string list \<Rightarrow> string"
  EvalSymlinks :: "string \<Rightarrow> go_error + string"
  Stat :: "string \<Rightarrow> go_error + file_info"

text \<open>\<open>DirExists\<close> returns the pair \<open>(bool, error)\<close> as Go does.\<close>

definition DirExists :: "os_env \<Rightarrow> string \<Rightarrow> bool \<times> go_error option" where
  "DirExists os path =
     (case Stat os path of
        Inl err \<Rightarrow> (False, Some err)
      | Inr info \<Rightarrow> (IsDir info, None))"

definition GetDataDir :: "os_env \<Rightarrow> go_error + string" where
  "GetDataDir os =
     (let dir = Getenv os ''XDG_DATA_HOME'' in
      if dir \<noteq> [] then Inr dir
      else (case UserHomeDir os of
              Inl err \<Rightarrow> Inl err
            | Inr home \<Rightarrow> Inr (Join os [home, ''.local'', ''share''])))"

text \<open>
  \<open>ExpandPath\<close>: the only guard before \<open>path[0]\<close> is the one on the number of
  arguments, so an empty expanded path panics.
\<close>

definition ExpandPath :: "os_env \<Rightarrow> string list \<Rightarrow> (go_error + string) outcome" where
  "ExpandPath os paths =
     (if length paths = 0 then Returns (Inl (ErrorString ''no path provided''))
      else (case UserHomeDir os of
              Inl err \<Rightarrow> Returns (Inl err)
            | Inr homedir \<Rightarrow>
                (case ExpandEnv os (Join os paths) of
                   [] \<Rightarrow> Panics
                 | c # rest \<Rightarrow>
                     Returns (EvalSymlinks os
                       (if c = CHR ''~'' then Join os [homedir, rest] else c # rest)))))"

text \<open>\<open>ExpandOnly\<close> has the further guard on \<open>len(paths[0])\<close> and resolves no symlink.\<close>

definition ExpandOnly :: "os_env \<Rightarrow> string list \<Rightarrow> (go_error + string) outcome" where
  "ExpandOnly os paths =
     (if length paths = 0 then Returns (Inl (ErrorString ''no path provided''))
      else if length (hd paths) = 0 then Returns (Inl (ErrorString ''no path provided''))
      else (case UserHomeDir os of
              Inl err \<Rightarrow> Returns (Inl err)
            | Inr homedir \<Rightarrow>
                (case ExpandEnv os (Join os paths) of
                   [] \<Rightarrow> Panics
                 | c # rest \<Rightarrow>
                     Returns (Inr
                       (if c = CHR ''~'' then Join os [homedir, rest] else c # rest)))))"


section \<open>Package browsers\<close>

datatype BrowserFamily = Mozilla | ChromeBased | Qutebrowser

record BrowserDef =
  Flavour :: string
  Family :: BrowserFamily
  BaseDir :: string
  SnapDir :: string
  FlatpakDir :: string

definition Flatpak :: string where "Flatpak = ''flat''"
definition Snap :: string where "Snap = ''snap''"

text \<open>
  \<open>isValidDir\<close>; the log lines are not modelled. \<open>ok\<close> is read whatever
  \<open>DirExists\<close>'s error is.
\<close>

definition isValidDir :: "os_env \<Rightarrow> string \<Rightarrow> string \<Rightarrow> bool outcome" where
  "isValidDir os dir ptype =
     (if dir = [] then Returns False
      else (case ExpandOnly os [dir] of
              Panics \<Rightarrow> Panics
            | Returns (Inl err) \<Rightarrow> Returns False
            | Returns (Inr normDir) \<Rightarrow> Returns (fst (DirExists os normDir))))"

text \<open>
  The condition \<open>dir != "" && isValidDir(dir, ptype)\<close> shared by \<open>GetBaseDir\<close> and
  \<open>ExpandBaseDir\<close>: \<open>&&\<close> does not call \<open>isValidDir\<close> on an empty string.
\<close>

definition GetBaseDir :: "os_env \<Rightarrow> BrowserDef \<Rightarrow> string outcome" where
  "GetBaseDir os b =
     (case (if FlatpakDir b \<noteq> [] then isValidDir os (FlatpakDir b) Flatpak else Returns False) of
        Panics \<Rightarrow> Panics
      | Returns True \<Rightarrow> Returns (FlatpakDir b)
      | Returns False \<Rightarrow>
          (case (if SnapDir b \<noteq> [] then isValidDir os (SnapDir b) Snap else Returns False) of
             Panics \<Rightarrow> Panics
           | Returns True \<Rightarrow> Returns (SnapDir b)
           | Returns False \<Rightarrow> Returns (BaseDir b)))"

definition ExpandBaseDir :: "os_env \<Rightarrow> BrowserDef \<Rightarrow> (go_error + string) outcome" where
  "ExpandBaseDir os b =
     (case (if FlatpakDir b \<noteq> [] then isValidDir os (FlatpakDir b) Flatpak else Returns False) of
        Panics \<Rightarrow> Panics
      | Returns True \<Rightarrow> ExpandPath os [FlatpakDir b]
      | Returns False \<Rightarrow>
          (case (if SnapDir b \<noteq> [] then isValidDir os (SnapDir b) Snap else Returns False) of
             Panics \<Rightarrow> Panics
           | Returns True \<Rightarrow> ExpandPath os [SnapDir b]
           | Returns False \<Rightarrow> ExpandPath os [BaseDir b]))"

text \<open>
  \<open>Detect\<close>. In the branch where \<open>ExpandBaseDir\<close> fails the arguments of the log call,
  \<open>b.GetBaseDir()\<close> among them, are evaluated; nothing returns there, so control
  reaches the final \<open>return true\<close>.
\<close>

definition Detect :: "os_env \<Rightarrow> BrowserDef \<Rightarrow> bool outcome" where
  "Detect os b =
     (case ExpandBaseDir os b of
        Panics \<Rightarrow> Panics
      | Returns (Inl err) \<Rightarrow>
          (case GetBaseDir os b of
             Panics \<Rightarrow> Panics
           | Returns logged \<Rightarrow> Returns True)
      | Returns (Inr dir) \<Rightarrow>
          (case DirExists os dir of
             (ok, err) \<Rightarrow> if err \<noteq> None \<or> \<not> ok then Returns False else Returns True))"


section \<open>Package database\<close>

subsection \<open>Content hash and logical clock\<close>

text \<open>
  \<open>strconv\<close>'s base-10 rendering of an unsigned integer, which is what the verb
  \<open>%d\<close> prints for a \<open>uint64\<close>.
\<close>

definition digit_char :: "nat \<Rightarrow> char" where
  "digit_char n = ''0123456789'' ! n"

function decimal :: "nat \<Rightarrow> string" where
  "decimal n = (if n < 10 then [digit_char n] else decimal (n div 10) @ [digit_char (n mod 10)])"
  by pat_completeness auto
termination
  by (relation "measure id") auto

declare decimal.simps [simp del]

text \<open>
  \<open>SQLxxHash\<close> is \<open>fmt.Sprintf("%d", xxhash.ChecksumString64(in))\<close>. The checksum
  function belongs to the library github.com/OneOfOne/xxhash and is the parameter
  \<open>H\<close>: any function from byte strings to 64-bit words.
\<close>

definition SQLxxHash :: "(string \<Rightarrow> 64 word) \<Rightarrow> string \<Rightarrow> string" where
  "SQLxxHash H inp = Sprintf ''%d'' [decimal (unat (H inp))]"

definition xhsum :: "(string \<Rightarrow> 64 word) \<Rightarrow> string \<Rightarrow> string \<Rightarrow> string \<Rightarrow> string \<Rightarrow> string" where
  "xhsum H url metadata tags desc =
     (let input = Sprintf ''%s+%s+%s+%s'' [url, metadata, tags, desc]
      in SQLxxHash H input)"

text \<open>
  Modelled from the spec: the method \<open>Tick\<close> of the package variable \<open>Clock\<close>, which
  \<open>sqlTickClock\<close> calls, is not among the source files. The spec: "Exposes
  \<open>tick(previous: u64) -> u64\<close> returning \<open>max(internal, previous) + 1\<close> and atomically
  updating internal." The clock's value is passed in and the pair of the returned value
  and the updated internal value is passed out; \<open>uint64\<close> addition wraps around.
\<close>

definition Tick :: "64 word \<Rightarrow> 64 word \<Rightarrow> 64 word \<times> 64 word" where
  "Tick internal previous = (let v = max internal previous + 1 in (v, v))"

text \<open>\<open>func sqlTickClock(previous uint64) uint64 { return Clock.Tick(previous) }\<close>\<close>

definition sqlTickClock :: "64 word \<Rightarrow> 64 word \<Rightarrow> 64 word \<times> 64 word" where
  "sqlTickClock clock previous = Tick clock previous"

subsection \<open>Opening a database\<close>

datatype DBType = DBTypeInMemory | DBTypeRegularFile

text \<open>A \<open>*sqlx.DB\<close> connection pool, named by the driver and data source it was opened with.\<close>

datatype sqlx_db = SqlxDB string string

text \<open>
  What lies behind the two interfaces embedded in \<open>DB\<close> is a parameter of the model:
  the answer of \<open>LockChecker.Locked()\<close>, and the library calls \<open>sqlx.Open\<close> and
  \<open>(*sqlx.DB).Ping\<close>.
\<close>

record db_env =
  Locked_result :: "bool \<times> go_error option"
  sqlx_Open :: "string \<Rightarrow> string \<Rightarrow> go_error + sqlx_db"
  Ping :: "sqlx_db \<Rightarrow> go_error option"

text \<open>
  The struct \<open>DB\<close>. \<open>opener_handle\<close> is the field \<open>handle\<close> of the embedded
  \<open>SQLXDBOpener\<close>; the mutex is not modelled.
\<close>

record DB =
  Name :: string
  Path :: string
  Handle :: "sqlx_db option"
  EngineMode :: string
  AttachedTo :: "string list"
  Type :: DBType
  filePath :: string
  opener_handle :: "sqlx_db option"

text \<open>The calls made on the environment, in order.\<close>

datatype db_call = CallLocked | CallOpen string string | CallPing sqlx_db

definition ErrBusy :: nat where
  "ErrBusy = 5"

definition SQLXDBOpener_Open :: "db_env \<Rightarrow> DB \<Rightarrow> string \<Rightarrow> string \<Rightarrow> DB \<times> go_error option" where
  "SQLXDBOpener_Open env db driver dataSourceName =
     (case sqlx_Open env driver dataSourceName of
        Inl err \<Rightarrow> (db\<lparr>opener_handle := None\<rparr>, Some err)
      | Inr h \<Rightarrow> (db\<lparr>opener_handle := Some h\<rparr>, None))"

definition SQLXDBOpener_Get :: "DB \<Rightarrow> sqlx_db option" where
  "SQLXDBOpener_Get db = opener_handle db"

text \<open>
  \<open>db.open()\<close>: the updated struct, the error and the calls made. \<open>Ping\<close> through a
  nil handle would be a nil dereference.
\<close>

definition open_db :: "db_env \<Rightarrow> DB \<Rightarrow> (DB \<times> go_error option \<times> db_call list) outcome" where
  "open_db env db =
     (case SQLXDBOpener_Open env db (EngineMode db) (Path db) of
        (db1, Some err) \<Rightarrow> Returns (db1, Some err, [CallOpen (EngineMode db) (Path db)])
      | (db1, None) \<Rightarrow>
          (let db2 = db1\<lparr>Handle := SQLXDBOpener_Get db1\<rparr> in
           case Handle db2 of
             None \<Rightarrow> Panics
           | Some h \<Rightarrow>
               Returns (db2, Ping env h, [CallOpen (EngineMode db) (Path db), CallPing h])))"

text \<open>\<open>func (db *DB) Locked() (bool, error) { return db.LockChecker.Locked() }\<close>\<close>

definition Locked :: "db_env \<Rightarrow> DB \<Rightarrow> bool \<times> go_error option" where
  "Locked env db = Locked_result env"

text \<open>
  \<open>sqlErr, _ := err.(sqlite3.Error)\<close> followed by \<open>sqlErr.Code\<close>: the code of the error
  when it is a \<open>sqlite3.Error\<close>, the zero value otherwise.
\<close>

definition sqlErr_Code :: "go_error option \<Rightarrow> nat" where
  "sqlErr_Code err = (case err of Some (Sqlite3Error c msg) \<Rightarrow> c | _ \<Rightarrow> 0)"

text \<open>
  \<open>Init\<close> returns the pair \<open>(*DB, error)\<close>; the model also gives the receiver as the
  call leaves it and the calls made on the environment.
\<close>

definition Init :: "db_env \<Rightarrow> DB \<Rightarrow> ((DB option \<times> go_error option) \<times> DB \<times> db_call list) outcome" where
  "Init env db =
     (if Handle db \<noteq> None then Returns ((Some db, None), db, [])
      else
        (case (if Type db = DBTypeRegularFile then Some (Locked env db) else None) of
           Some (locked, Some err) \<Rightarrow>
             Returns ((None, Some (DBError (Name db) (Some err))), db, [CallLocked])
         | Some (True, None) \<Rightarrow> Returns ((None, Some ErrVfsLocked), db, [CallLocked])
         | probe \<Rightarrow>
             (case open_db env db of
                Panics \<Rightarrow> Panics
              | Returns (db', err, calls) \<Rightarrow>
                  (let trace = (if probe = None then [] else [CallLocked]) @ calls in
                   if err \<noteq> None \<and> sqlErr_Code err = ErrBusy
                   then Returns ((None, Some ErrVfsLocked), db', trace)
                   else if err \<noteq> None
                   then Returns ((None, Some (DBError (Name db') err)), db', trace)
                   else Returns ((Some db', None), db', trace)))))"

subsection \<open>Default configuration\<close>

text \<open>\<open>time.Duration\<close> counts nanoseconds.\<close>

definition Second :: int where
  "Second = 1000000000"

text \<open>The struct \<open>dbConfig\<close>; its field \<open>Path\<close> is \<open>cfgPath\<close> here, beside \<open>DB\<close>'s \<open>Path\<close>.\<close>

record dbConfig =
  SyncInterval :: int
  cfgPath :: string

text \<open>
  The package's \<open>init\<close>: \<open>log.Fatal\<close> ends the process (\<open>Inl\<close>); otherwise the package
  variable \<open>Config\<close> is set and registered as the configurator \<open>database\<close>.
\<close>

record init_state =
  Config :: dbConfig
  configurators :: "(string \<times> dbConfig) list"

definition init :: "os_env \<Rightarrow> go_error + init_state" where
  "init os =
     (case GetDataDir os of
        Inl err \<Rightarrow> Inl err
      | Inr dataDir \<Rightarrow>
          (let dbPath = Join os [dataDir, ''gosuki/gosuki.db''];
               cfg = \<lparr>SyncInterval = Second * 4, cfgPath = dbPath\<rparr>
           in Inr \<lparr>Config = cfg, configurators = [(''database'', cfg)]\<rparr>))"


section \<open>The specification's wording\<close>

text \<open>
  "Path expansion supports \<open>~\<close> and environment variables": the joined path with its
  environment variables expanded and a leading \<open>~\<close> replaced by the home directory.
\<close>

definition tilde_expand :: "os_env \<Rightarrow> string \<Rightarrow> string \<Rightarrow> string" where
  "tilde_expand os home path =
     (case path of
        [] \<Rightarrow> []
      | c # rest \<Rightarrow> if c = CHR ''~'' then Join os [home, rest] else path)"

definition spec_expand :: "os_env \<Rightarrow> string \<Rightarrow> string list \<Rightarrow> string" where
  "spec_expand os home paths = tilde_expand os home (ExpandEnv os (Join os paths))"

text \<open>
  "if \<open>flatpak_dir\<close> exists and expands to a real directory, prefer it; else \<open>snap_dir\<close>;
  else \<open>base_dir\<close>".
\<close>

definition expands_to_real_dir :: "os_env \<Rightarrow> string \<Rightarrow> bool" where
  "expands_to_real_dir os dir =
     (case ExpandOnly os [dir] of
        Returns (Inr p) \<Rightarrow> (case Stat os p of Inr info \<Rightarrow> IsDir info | Inl err \<Rightarrow> False)
      | _ \<Rightarrow> False)"

definition effective_base_dir :: "os_env \<Rightarrow> BrowserDef \<Rightarrow> string" where
  "effective_base_dir os b =
     (if FlatpakDir b \<noteq> [] \<and> expands_to_real_dir os (FlatpakDir b) then FlatpakDir b
      else if SnapDir b \<noteq> [] \<and> expands_to_real_dir os (SnapDir b) then SnapDir b
      else BaseDir b)"

text \<open>The string \<open>xhsum\<close> hands to the hash: the four fields joined by \<open>+\<close>.\<close>

definition canonical :: "string \<Rightarrow> string \<Rightarrow> string \<Rightarrow> string \<Rightarrow> string" where
  "canonical url title tags desc = url @ ''+'' @ title @ ''+'' @ tags @ ''+'' @ desc"

text \<open>Reading a base-10 numeral back.\<close>

definition digit_val :: "char \<Rightarrow> nat" where
  "digit_val c = of_char c - 48"

definition undecimal :: "string \<Rightarrow> nat" where
  "undecimal s = foldl (\<lambda>a c. 10 * a + digit_val c) 0 s"


section \<open>Concrete systems\<close>

text \<open>
  A small machine on which the functions can be run: the user \<open>u\<close> with home
  \<open>/home/u\<close>, no environment variable set, four directories, and
  \<open>/home/u/.config/chromium\<close> a symbolic link to \<open>/mnt/data/chromium\<close>. Its \<open>Join\<close>
  puts \<open>/\<close> between the non-empty elements and collapses repeated separators, which is
  what \<open>filepath.Join\<close> gives on the paths used below (none has a \<open>.\<close> or \<open>..\<close>
  element or a trailing separator); its \<open>ExpandEnv\<close> is right on \<open>$GOSUKI_UNSET\<close> (no
  such variable) and on strings without \<open>$\<close>.
\<close>

definition squeeze :: "string \<Rightarrow> string" where
  "squeeze s =
     foldr (\<lambda>c acc. if c = CHR ''/'' \<and> (case acc of [] \<Rightarrow> False | d # r \<Rightarrow> d = CHR ''/'')
                      then acc else c # acc) s []"

fun join_with_slash :: "string list \<Rightarrow> string" where
  "join_with_slash [] = []"
| "join_with_slash [p] = p"
| "join_with_slash (p # ps) = p @ ''/'' @ join_with_slash ps"

definition demo_Join :: "string list \<Rightarrow> string" where
  "demo_Join elems = squeeze (join_with_slash (filter (\<lambda>e. e \<noteq> []) elems))"

definition demo_dirs :: "string list" where
  "demo_dirs =
     [''/home/u'', ''/home/u/.local/share'', ''/home/u/.config/chromium'', ''/mnt/data/chromium'']"

definition demo_os :: os_env where
  "demo_os = \<lparr>
     UserHomeDir = Inr ''/home/u'',
     Getenv = (\<lambda>k. []),
     ExpandEnv = (\<lambda>s. if s = ''$GOSUKI_UNSET'' then [] else s),
     Join = demo_Join,
     EvalSymlinks = (\<lambda>p. if p = ''/home/u/.config/chromium'' then Inr ''/mnt/data/chromium''
                          else if p \<in> set demo_dirs then Inr p
                          else Inl (SysError ''lstat: no such file or directory'')),
     Stat = (\<lambda>p. if p \<in> set demo_dirs then Inr (FileInfo True)
                  else Inl (SysError ''stat: no such file or directory''))\<rparr>"

text \<open>The same machine with \<open>$HOME\<close> undefined, and with \<open>XDG_DATA_HOME=/srv/data\<close>.\<close>

definition nohome_os :: os_env where
  "nohome_os = demo_os\<lparr>UserHomeDir := Inl (SysError ''$HOME is not defined'')\<rparr>"

definition xdg_os :: os_env where
  "xdg_os = demo_os\<lparr>Getenv := (\<lambda>k. if k = ''XDG_DATA_HOME'' then ''/srv/data'' else [])\<rparr>"

text \<open>Firefox, which is not installed on the machine, and a definition whose flatpak
  directory is given by an environment variable.\<close>

definition firefox_def :: BrowserDef where
  "firefox_def = \<lparr>Flavour = ''firefox'', Family = Mozilla,
     BaseDir = ''~/.mozilla/firefox'',
     SnapDir = ''~/snap/firefox/common/.mozilla/firefox'',
     FlatpakDir = ''~/.var/app/org.mozilla.firefox/.mozilla/firefox''\<rparr>"

definition envvar_def :: BrowserDef where
  "envvar_def = \<lparr>Flavour = ''chromium'', Family = ChromeBased,
     BaseDir = ''~/.config/chromium'', SnapDir = [], FlatpakDir = ''$GOSUKI_UNSET''\<rparr>"

text \<open>
  The on-disk and the in-memory database as \<open>NewDB\<close> builds them, a lock checker that
  reports a foreign writer, and a connection whose \<open>Ping\<close> fails with \<open>SQLITE_BUSY\<close>.
\<close>

definition disk_db :: DB where
  "disk_db = \<lparr>Name = ''gosuki_db'', Path = ''file:/home/u/.local/share/gosuki/gosuki.db'',
     Handle = None, EngineMode = ''sqlite3_gosuki'', AttachedTo = [], Type = DBTypeRegularFile,
     filePath = ''/home/u/.local/share/gosuki/gosuki.db'', opener_handle = None\<rparr>"

definition mem_db :: DB where
  "mem_db = \<lparr>Name = ''memcache'', Path = ''file:memcache?mode=memory&cache=shared'',
     Handle = None, EngineMode = ''sqlite3_gosuki'', AttachedTo = [], Type = DBTypeInMemory,
     filePath = [], opener_handle = None\<rparr>"

definition locked_env :: db_env where
  "locked_env = \<lparr>Locked_result = (True, None),
     sqlx_Open = (\<lambda>driver dsn. Inr (SqlxDB driver dsn)),
     Ping = (\<lambda>h. None)\<rparr>"

definition busy_env :: db_env where
  "busy_env = \<lparr>Locked_result = (False, None),
     sqlx_Open = (\<lambda>driver dsn. Inr (SqlxDB driver dsn)),
     Ping = (\<lambda>h. Some (Sqlite3Error 5 ''database is locked''))\<rparr>"

text \<open>The on-disk database as a call of \<open>open\<close> leaves it: both handle fields set.\<close>

definition opened_db :: DB where
  "opened_db = disk_db\<lparr>
     Handle := Some (SqlxDB ''sqlite3_gosuki'' ''file:/home/u/.local/share/gosuki/gosuki.db''),
     opener_handle := Some (SqlxDB ''sqlite3_gosuki'' ''file:/home/u/.local/share/gosuki/gosuki.db'')\<rparr>"

section \<open>Auxiliary facts\<close>

lemmas demo_simps = demo_os_def demo_Join_def squeeze_def demo_dirs_def

lemma digit_val_digit_char:
  assumes "n < 10"
  shows "digit_val (digit_char n) = n"
proof -
  from assms have "n = 0 \<or> n = 1 \<or> n = 2 \<or> n = 3 \<or> n = 4
      \<or> n = 5 \<or> n = 6 \<or> n = 7 \<or> n = 8 \<or> n = 9"
    by presburger
  then show ?thesis
    by (elim disjE) (simp_all add: digit_val_def digit_char_def)
qed

lemma undecimal_decimal: "undecimal (decimal n) = n"
proof (induction n rule: decimal.induct)
  case (1 n)
  show ?case
  proof (cases "n < 10")
    case True
    then show ?thesis
      by (subst decimal.simps) (simp add: undecimal_def digit_val_digit_char)
  next
    case False
    then have "undecimal (decimal (n div 10)) = n div 10"
      using 1 by simp
    with False show ?thesis
      by (subst decimal.simps) (simp add: undecimal_def digit_val_digit_char)
  qed
qed

lemma decimal_eq_iff: "decimal n = decimal m \<longleftrightarrow> n = m"
  by (metis undecimal_decimal)

lemma xhsum_unfold: "xhsum H url metadata tags desc = decimal (unat (H (canonical url metadata tags desc)))"
  by (simp add: xhsum_def SQLxxHash_def canonical_def)

text \<open>No function from byte strings to 64-bit words is injective.\<close>

lemma checksum_not_injective:
  fixes H :: "string \<Rightarrow> 64 word"
  shows "\<exists>s s'. s \<noteq> s' \<and> H s = H s'"
proof (rule ccontr)
  assume "\<not> (\<exists>s s'. s \<noteq> s' \<and> H s = H s')"
  then have "inj H" by (auto simp: inj_on_def)
  have "finite (range H)" by simp
  then have "finite (UNIV :: string set)"
    using \<open>inj H\<close> by (rule finite_imageD)
  then show False
    using infinite_UNIV_listI by blast
qed

lemma word64_less_succ:
  fixes x :: "64 word"
  assumes "x \<noteq> - 1"
  shows "x < x + 1"
  using assms by (metis inc_less_eq_triv_imp linorder_less_linear word_le_less_eq)

lemma word64_not_max:
  fixes x :: "64 word"
  assumes "unat x + 1 < 2 ^ 64"
  shows "x \<noteq> - 1"
proof
  assume "x = - 1"
  then have "unat x = 2 ^ 64 - 1"
    by (simp add: unsigned_minus_1_eq_mask mask_eq_exp_minus_1)
  with assms show False by simp
qed

lemma unat_max64: "unat (max a b) = max (unat a) (unat (b :: 64 word))"
  by (simp add: max_def word_le_nat_alt)

lemma unat_succ64:
  fixes x :: "64 word"
  assumes "unat x + 1 < 2 ^ 64"
  shows "unat (x + 1) = unat x + 1"
  using assms by (simp add: unat_add_lem [THEN iffD1])

lemma open_db_returns:
  "\<exists>db' err calls. open_db env db = Returns (db', err, calls) \<and> CallLocked \<notin> set calls"
  by (auto simp: open_db_def SQLXDBOpener_Open_def SQLXDBOpener_Get_def Let_def split: sum.splits)

lemma Init_initialised: "Handle db \<noteq> None \<Longrightarrow> Init env db = Returns ((Some db, None), db, [])"
  by (simp add: Init_def)

text \<open>
  On a database that is not yet initialised (\<open>Handle\<close> is nil): for an on-disk database
  \<open>Init\<close> returns a nil \<open>*DB\<close> together with \<open>ErrVfsLocked\<close> when the lock probe
  reports a lock, leaving the receiver as it was, and also when the probe reports none
  and \<open>db.open()\<close> fails with a \<open>sqlite3.Error\<close> of code \<open>SQLITE_BUSY\<close>; for an
  in-memory database \<open>Init\<close> returns without calling the lock probe.
\<close>

lemma Init_returns_ErrVfsLocked:
  assumes "Handle db = None"
  shows "(Type db = DBTypeRegularFile \<and> Locked env db = (True, None) \<longrightarrow>
            Init env db = Returns ((None, Some ErrVfsLocked), db, [CallLocked])) \<and>
         (Type db = DBTypeRegularFile \<and> Locked env db = (False, None) \<and>
            open_db env db = Returns (db', Some (Sqlite3Error ErrBusy msg), calls) \<longrightarrow>
            Init env db = Returns ((None, Some ErrVfsLocked), db', CallLocked # calls)) \<and>
         (Type db = DBTypeInMemory \<longrightarrow>
            (\<exists>r db'' calls'. Init env db = Returns (r, db'', calls') \<and> CallLocked \<notin> set calls'))"
proof (intro conjI impI)
  assume "Type db = DBTypeRegularFile \<and> Locked env db = (True, None)"
  with assms show "Init env db = Returns ((None, Some ErrVfsLocked), db, [CallLocked])"
    by (simp add: Init_def)
next
  assume "Type db = DBTypeRegularFile \<and> Locked env db = (False, None) \<and>
    open_db env db = Returns (db', Some (Sqlite3Error ErrBusy msg), calls)"
  with assms show "Init env db = Returns ((None, Some ErrVfsLocked), db', CallLocked # calls)"
    by (simp add: Init_def sqlErr_Code_def)
next
  assume mem: "Type db = DBTypeInMemory"
  obtain db1 err calls1 where "open_db env db = Returns (db1, err, calls1)"
    and "CallLocked \<notin> set calls1"
    using open_db_returns by blast
  with assms mem
  show "\<exists>r db'' calls'. Init env db = Returns (r, db'', calls') \<and> CallLocked \<notin> set calls'"
    by (simp add: Init_def Let_def)
qed

text \<open>
  Whenever \<open>sqlx.Open\<close> succeeds and \<open>Ping\<close> fails with \<open>SQLITE_BUSY\<close>, \<open>Init\<close> on an
  on-disk database returns \<open>ErrVfsLocked\<close> and leaves the connection in the receiver's
  \<open>Handle\<close>, so that \<open>Init\<close> on the receiver returns it as initialised without a probe.
  Where \<open>sqlx.Open\<close> itself fails, the receiver's \<open>Handle\<close> stays nil.
\<close>

lemma Init_busy_leaves_Handle:
  assumes "Handle db = None" and "Type db = DBTypeRegularFile"
    and "Locked env db = (False, None)"
    and "sqlx_Open env (EngineMode db) (Path db) = Inr h"
    and "Ping env h = Some (Sqlite3Error ErrBusy msg)"
  shows "\<exists>db'. Init env db =
            Returns ((None, Some ErrVfsLocked), db',
              [CallLocked, CallOpen (EngineMode db) (Path db), CallPing h]) \<and>
          Handle db' = Some h \<and>
          Init env db' = Returns ((Some db', None), db', [])"
  using assms
  by (simp add: Init_def open_db_def SQLXDBOpener_Open_def SQLXDBOpener_Get_def
      sqlErr_Code_def Let_def)

lemma Init_Open_error_Handle_nil:
  assumes "Handle db = None" and "sqlx_Open env (EngineMode db) (Path db) = Inl e"
    and "Init env db = Returns (r, db', calls)"
  shows "Handle db' = None"
  using assms
  by (auto simp: Init_def open_db_def SQLXDBOpener_Open_def Let_def
      split: if_splits option.splits prod.splits bool.splits)

lemma isValidDir_spec:
  "ExpandOnly os [dir] \<noteq> Panics \<Longrightarrow>
   isValidDir os dir ptype = Returns (dir \<noteq> [] \<and> expands_to_real_dir os dir)"
  by (auto simp: isValidDir_def expands_to_real_dir_def DirExists_def ExpandOnly_def
      split: outcome.splits sum.splits list.splits if_splits)

text \<open>
  Where neither directory check panics, \<open>GetBaseDir\<close> returns the directory of the
  specification's resolution order and \<open>ExpandBaseDir\<close> expands that same directory.
\<close>

lemma GetBaseDir_resolution_order:
  assumes "ExpandOnly os [FlatpakDir b] \<noteq> Panics" and "ExpandOnly os [SnapDir b] \<noteq> Panics"
  shows "GetBaseDir os b = Returns (effective_base_dir os b) \<and>
         ExpandBaseDir os b = ExpandPath os [effective_base_dir os b]"
  using assms
  by (simp add: GetBaseDir_def ExpandBaseDir_def effective_base_dir_def isValidDir_spec)

text \<open>
  \<open>ExpandBaseDir\<close> expands the directory \<open>GetBaseDir\<close> selects, and panics where
  \<open>GetBaseDir\<close> panics.
\<close>

lemma ExpandBaseDir_follows_GetBaseDir:
  "ExpandBaseDir os b =
     (case GetBaseDir os b of Panics \<Rightarrow> Panics | Returns d \<Rightarrow> ExpandPath os [d])"
  by (simp add: GetBaseDir_def ExpandBaseDir_def split: outcome.splits bool.splits)

text \<open>
  Whenever \<open>ExpandBaseDir\<close> returns an error, \<open>Detect\<close> answers true; it answers false
  only for a path that expanded and is no directory.
\<close>

lemma Detect_expand_error: "ExpandBaseDir os b = Returns (Inl err) \<Longrightarrow> Detect os b = Returns True"
  by (cases "GetBaseDir os b") (simp_all add: Detect_def ExpandBaseDir_follows_GetBaseDir)

lemma Detect_False_iff:
  "Detect os b = Returns False \<longleftrightarrow>
     (\<exists>dir. ExpandBaseDir os b = Returns (Inr dir) \<and> \<not> fst (DirExists os dir))"
  by (auto simp: Detect_def DirExists_def split: outcome.splits sum.splits prod.splits)

section \<open>The claims\<close>

subsection \<open>Browser detection\<close>

text \<open>
  C1. "Detect(b) returns true if and only if the effective base directory of b exists
  as a directory on disk; in particular Detect returns false whenever path expansion
  of the base directory fails." The code does otherwise where expansion fails. On the
  machine \<open>demo_os\<close> none of Firefox's three directories exists: the flatpak and snap
  checks fail, \<open>ExpandPath\<close> of \<open>~/.mozilla/firefox\<close> returns the error of
  \<open>filepath.EvalSymlinks\<close>, \<open>os.Stat\<close> finds no such directory, and \<open>Detect\<close> logs
  "skipping" and returns true.
\<close>

theorem Detect_true_for_absent_browser:
  "ExpandBaseDir demo_os firefox_def = Returns (Inl (SysError ''lstat: no such file or directory'')) \<and>
   DirExists demo_os ''/home/u/.mozilla/firefox'' =
     (False, Some (SysError ''stat: no such file or directory'')) \<and>
   Detect demo_os firefox_def = Returns True"
  by (simp add: Detect_def ExpandBaseDir_def GetBaseDir_def isValidDir_def ExpandOnly_def
      ExpandPath_def DirExists_def firefox_def_def demo_simps)

theorem Detect_true_for_absent_browser_witness:
  "Detect demo_os firefox_def \<noteq> Returns False"
  using Detect_true_for_absent_browser by simp

text \<open>
  C2. "The effective base directory is resolved in this order: the flatpak directory if
  it is non-empty and expands to an existing real directory; otherwise the snap directory
  on the same condition; otherwise the plain base directory. GetBaseDir and ExpandBaseDir
  agree on which of the three is selected." The two functions do agree
  (\<open>ExpandBaseDir_follows_GetBaseDir\<close>), and they follow this order wherever the
  directory checks return (\<open>GetBaseDir_resolution_order\<close>). But
  a flatpak directory that is non-empty and expands to the empty path makes
  \<open>ExpandOnly\<close> index \<open>path[0]\<close> out of range: with \<open>$GOSUKI_UNSET\<close> as flatpak
  directory both functions panic, where the order of the claim selects the base
  directory \<open>~/.config/chromium\<close>.
\<close>

theorem GetBaseDir_panics_on_empty_expansion:
  "GetBaseDir demo_os envvar_def = Panics \<and>
   ExpandBaseDir demo_os envvar_def = Panics \<and>
   effective_base_dir demo_os envvar_def = ''~/.config/chromium''"
  by (simp add: GetBaseDir_def ExpandBaseDir_def isValidDir_def ExpandOnly_def
      effective_base_dir_def expands_to_real_dir_def envvar_def_def demo_simps)

subsection \<open>Content hash\<close>

text \<open>
  C3, as stated: "xhsum(bm) equals xhsum(bm') if and only if their (url, title,
  sorted(tags), description) tuples are byte-equal." Two different bookmarks whose fields
  join to the same string have the same \<open>xhsum\<close>, whatever the checksum function is.
\<close>

theorem xhsum_separator_collision:
  "(''https://example.com/a+b'', ''c'', '''', '''') \<noteq> (''https://example.com/a'', ''b+c'', '''', '''') \<and>
   (\<forall>H. xhsum H ''https://example.com/a+b'' ''c'' '''' '''' =
        xhsum H ''https://example.com/a'' ''b+c'' '''' '''')"
  by (simp add: xhsum_def SQLxxHash_def)

text \<open>
  C3, amended: byte-equal tuples have equal \<open>xhsum\<close>, and two \<open>xhsum\<close> values are equal
  if and only if the 64-bit checksums of the two joined strings
  \<open>url+title+tags+description\<close> are equal.
\<close>

theorem xhsum_eq_iff_checksum_eq:
  "((url, title, tags, desc) = (url', title', tags', desc') \<longrightarrow>
      xhsum H url title tags desc = xhsum H url' title' tags' desc') \<and>
   ((xhsum H url title tags desc = xhsum H url' title' tags' desc') =
      (H (canonical url title tags desc) = H (canonical url' title' tags' desc')))"
  by (simp add: xhsum_unfold decimal_eq_iff word_unat_eq_iff)

theorem xhsum_eq_iff_checksum_eq_witness:
  "xhsum (\<lambda>s. word_of_nat (length s)) ''https://example.com/'' ''Example'' '',web,'' '''' = ''35'' \<and>
   xhsum (\<lambda>s. word_of_nat (length s)) ''https://example.com/'' ''Example'' '',web,'' '''' =
   xhsum (\<lambda>s. word_of_nat (length s)) ''https://example.com/'' ''Example'' '',web,'' ''''"
  using xhsum_eq_iff_checksum_eq [of "''https://example.com/''" "''Example''" "'',web,''" "''''"
      "''https://example.com/''" "''Example''" "'',web,''" "''''" "\<lambda>s. word_of_nat (length s)"]
  by (simp add: xhsum_unfold canonical_def decimal.simps digit_char_def)

text \<open>
  C4. \<open>xhsum\<close> joins url, title (metadata), the tag string and the description, in that
  order, with single \<open>+\<close> characters between them, and returns the 64-bit checksum of
  those bytes printed in base 10. (Go strings are byte sequences, UTF-8 for text; the
  tag string is hashed as the caller passes it.) The result is a function of the four
  strings alone: it is \<open>SQLxxHash\<close>, the checksum in base 10, of the joined string.
\<close>

theorem xhsum_canonical_hash:
  "xhsum H url metadata tags desc =
     decimal (unat (H (url @ ''+'' @ metadata @ ''+'' @ tags @ ''+'' @ desc))) \<and>
   xhsum H url metadata tags desc = SQLxxHash H (canonical url metadata tags desc) \<and>
   SQLxxHash H inp = decimal (unat (H inp))"
  by (simp add: xhsum_def SQLxxHash_def canonical_def)

subsection \<open>Logical clock\<close>

text \<open>
  C5, as stated: "every value returned by tick is strictly greater than both the previous
  internal value and the previous argument." With \<open>uint64\<close> arithmetic a tick whose
  argument is \<open>2^64 - 1\<close> returns 0.
\<close>

theorem sqlTickClock_wraps_at_max:
  "sqlTickClock 5 18446744073709551615 = (0, 0) \<and>
   \<not> (5 < fst (sqlTickClock 5 18446744073709551615)) \<and>
   \<not> (18446744073709551615 < fst (sqlTickClock 5 18446744073709551615))"
  by (simp add: sqlTickClock_def Tick_def Let_def)

text \<open>
  C5, amended: the tick returns \<open>max(internal, previous) + 1\<close> in \<open>uint64\<close> arithmetic and
  stores it as the new internal value. Where \<open>max(internal, previous) + 1 < 2^64\<close> the
  returned value is that number and is strictly greater than both the previous internal
  value and the argument; and where the next tick does not overflow either, it returns a
  strictly greater value than this one.
\<close>

theorem sqlTickClock_max_plus_one:
  "sqlTickClock internal previous = (max internal previous + 1, max internal previous + 1) \<and>
   (max (unat internal) (unat previous) + 1 < 2 ^ 64 \<longrightarrow>
      unat (fst (sqlTickClock internal previous)) = max (unat internal) (unat previous) + 1 \<and>
      internal < fst (sqlTickClock internal previous) \<and>
      previous < fst (sqlTickClock internal previous)) \<and>
   (max (unat internal) (unat previous) + 1 < 2 ^ 64 \<and>
    max (unat (snd (sqlTickClock internal previous))) (unat previous') + 1 < 2 ^ 64 \<longrightarrow>
      fst (sqlTickClock internal previous)
        < fst (sqlTickClock (snd (sqlTickClock internal previous)) previous'))"
proof (intro conjI impI)
  show eq: "sqlTickClock internal previous = (max internal previous + 1, max internal previous + 1)"
    by (simp add: sqlTickClock_def Tick_def Let_def)
  {
    assume "max (unat internal) (unat previous) + 1 < 2 ^ 64"
    then have b: "unat (max internal previous) + 1 < 2 ^ 64"
      by (simp add: unat_max64)
    then have lt: "max internal previous < max internal previous + 1"
      by (intro word64_less_succ word64_not_max)
    show "unat (fst (sqlTickClock internal previous)) = max (unat internal) (unat previous) + 1"
      using b by (simp add: eq unat_succ64 unat_max64)
    show "internal < fst (sqlTickClock internal previous)"
      using lt by (simp add: eq)
    show "previous < fst (sqlTickClock internal previous)"
      using lt by (simp add: eq)
  }
  assume "max (unat internal) (unat previous) + 1 < 2 ^ 64 \<and>
    max (unat (snd (sqlTickClock internal previous))) (unat previous') + 1 < 2 ^ 64"
  then have "unat (max (max internal previous + 1) previous') + 1 < 2 ^ 64"
    by (simp add: eq unat_max64)
  then have "max (max internal previous + 1) previous' < max (max internal previous + 1) previous' + 1"
    by (intro word64_less_succ word64_not_max)
  moreover have "max internal previous + 1 \<le> max (max internal previous + 1) previous'"
    by simp
  ultimately show "fst (sqlTickClock internal previous)
      < fst (sqlTickClock (snd (sqlTickClock internal previous)) previous')"
    by (simp add: sqlTickClock_def Tick_def Let_def)
qed

theorem sqlTickClock_max_plus_one_witness:
  "max (unat (7 :: 64 word)) (unat (3 :: 64 word)) + 1 < 2 ^ 64 \<and>
   sqlTickClock 7 3 = (8, 8) \<and>
   (7 :: 64 word) < fst (sqlTickClock 7 3) \<and>
   (3 :: 64 word) < fst (sqlTickClock 7 3) \<and>
   sqlTickClock (snd (sqlTickClock 7 3)) 2 = (9, 9) \<and>
   fst (sqlTickClock 7 3) < fst (sqlTickClock (snd (sqlTickClock 7 3)) 2)"
  using sqlTickClock_max_plus_one [of 7 3 2]
  by (simp add: sqlTickClock_def Tick_def Let_def)

subsection \<open>Opening the database\<close>

text \<open>
  C6. "DB.Init returns the distinguished error ErrVfsLocked when the database file is
  detected as locked by a foreign writer (either by the VFS lock probe or by a
  SQLITE_BUSY result while opening), and in that case no usable handle is produced; for
  an in-memory database the lock probe is skipped." The error is returned as claimed and
  the probe is skipped for an in-memory database (\<open>Init_returns_ErrVfsLocked\<close>), and
  where the probe reports the lock the receiver's \<open>Handle\<close> stays nil. But where
  \<open>Ping\<close> fails with \<open>SQLITE_BUSY\<close>, \<open>open\<close> has already stored the connection in
  \<open>db.Handle\<close> and \<open>Init\<close> returns without resetting it: on the on-disk database
  \<open>disk_db\<close> the call returns a nil \<open>*DB\<close> and \<open>ErrVfsLocked\<close>, the receiver keeps the
  handle, and a second \<open>Init\<close> on it takes the "already initialized" return, with no
  error and no lock probe.
\<close>

theorem Init_busy_keeps_Handle:
  "Init busy_env disk_db =
     Returns ((None, Some ErrVfsLocked), opened_db,
       [CallLocked, CallOpen ''sqlite3_gosuki'' ''file:/home/u/.local/share/gosuki/gosuki.db'',
        CallPing (SqlxDB ''sqlite3_gosuki'' ''file:/home/u/.local/share/gosuki/gosuki.db'')]) \<and>
   Handle disk_db = None \<and>
   Handle opened_db = Some (SqlxDB ''sqlite3_gosuki'' ''file:/home/u/.local/share/gosuki/gosuki.db'') \<and>
   Init busy_env opened_db = Returns ((Some opened_db, None), opened_db, [])"
  by (simp add: Init_def open_db_def Locked_def SQLXDBOpener_Open_def SQLXDBOpener_Get_def
      sqlErr_Code_def ErrBusy_def opened_db_def disk_db_def busy_env_def)

subsection \<open>Path expansion\<close>

text \<open>
  C7, as stated: "For every non-empty path argument, ExpandPath expands environment
  variables, replaces a leading \<open>~\<close> with the user's home directory, and follows symlinks;
  ExpandOnly performs the same expansion without resolving symlinks." Both functions
  ask for the home directory before they look at the path: with \<open>$HOME\<close> undefined they
  return that error for \<open>/home/u\<close>, a path with no \<open>~\<close> and no variable that
  \<open>EvalSymlinks\<close> resolves.
\<close>

theorem ExpandPath_error_without_home:
  "ExpandOnly nohome_os [''/home/u''] = Returns (Inl (SysError ''$HOME is not defined'')) \<and>
   ExpandPath nohome_os [''/home/u''] = Returns (Inl (SysError ''$HOME is not defined'')) \<and>
   EvalSymlinks nohome_os (ExpandEnv nohome_os (Join nohome_os [''/home/u''])) = Inr ''/home/u''"
  by (simp add: ExpandOnly_def ExpandPath_def nohome_os_def demo_simps)

text \<open>
  C7, amended: for every non-empty path argument (a non-empty argument list, whose
  first element is non-empty in the case of \<open>ExpandOnly\<close>): when the user's home
  directory can be determined and the joined path with its environment variables
  expanded is not empty, \<open>ExpandPath\<close> returns what \<open>filepath.EvalSymlinks\<close> gives
  for that path with a leading \<open>~\<close> replaced by the home directory (the resolved path
  or its error), and \<open>ExpandOnly\<close> returns that same path unresolved; when the home
  directory cannot be determined, both return that error.
\<close>

theorem ExpandPath_ExpandOnly_spec_expand:
  "(paths \<noteq> [] \<and> UserHomeDir os = Inr home \<and> ExpandEnv os (Join os paths) \<noteq> [] \<longrightarrow>
      ExpandPath os paths = Returns (EvalSymlinks os (spec_expand os home paths))) \<and>
   (paths \<noteq> [] \<and> hd paths \<noteq> [] \<and> UserHomeDir os = Inr home \<and>
      ExpandEnv os (Join os paths) \<noteq> [] \<longrightarrow>
      ExpandOnly os paths = Returns (Inr (spec_expand os home paths))) \<and>
   (paths \<noteq> [] \<and> UserHomeDir os = Inl err \<longrightarrow>
      ExpandPath os paths = Returns (Inl err)) \<and>
   (paths \<noteq> [] \<and> hd paths \<noteq> [] \<and> UserHomeDir os = Inl err \<longrightarrow>
      ExpandOnly os paths = Returns (Inl err))"
  by (auto simp: ExpandOnly_def ExpandPath_def spec_expand_def tilde_expand_def
      split: list.splits)

theorem ExpandPath_ExpandOnly_spec_expand_witness:
  "UserHomeDir demo_os = Inr ''/home/u'' \<and>
   ExpandEnv demo_os (Join demo_os [''~/.config/chromium'']) = ''~/.config/chromium'' \<and>
   ExpandOnly demo_os [''~/.config/chromium''] = Returns (Inr ''/home/u/.config/chromium'') \<and>
   ExpandPath demo_os [''~/.config/chromium''] = Returns (Inr ''/mnt/data/chromium'') \<and>
   UserHomeDir nohome_os = Inl (SysError ''$HOME is not defined'') \<and>
   ExpandOnly nohome_os [''~/.config/chromium''] = Returns (Inl (SysError ''$HOME is not defined'')) \<and>
   ExpandPath nohome_os [''~/.config/chromium''] = Returns (Inl (SysError ''$HOME is not defined''))"
  using ExpandPath_ExpandOnly_spec_expand
      [where paths = "[''~/.config/chromium'']" and os = demo_os and home = "''/home/u''"]
    ExpandPath_ExpandOnly_spec_expand
      [where paths = "[''~/.config/chromium'']" and os = nohome_os
        and err = "SysError ''$HOME is not defined''"]
  by (simp add: spec_expand_def tilde_expand_def nohome_os_def demo_simps)

text \<open>
  C9. \<open>ExpandPath\<close> guards only against an empty argument list. Given a home directory,
  and \<open>filepath.Join\<close> and \<open>os.ExpandEnv\<close> that map the empty string to the empty
  string (as Go's do), the argument list holding exactly one empty string makes the
  expanded path empty and \<open>path[0]\<close> panic, where \<open>ExpandOnly\<close> returns the error
  "no path provided".
\<close>

theorem ExpandPath_empty_string_panics:
  assumes "UserHomeDir os = Inr home" and "Join os [[]] = []" and "ExpandEnv os [] = []"
  shows "ExpandPath os [] = Returns (Inl (ErrorString ''no path provided'')) \<and>
         ExpandPath os [[]] = Panics \<and>
         ExpandOnly os [[]] = Returns (Inl (ErrorString ''no path provided''))"
  using assms by (simp add: ExpandPath_def ExpandOnly_def)

theorem ExpandPath_empty_string_panics_witness:
  "UserHomeDir demo_os = Inr ''/home/u'' \<and> Join demo_os [[]] = [] \<and> ExpandEnv demo_os [] = [] \<and>
   ExpandPath demo_os [[]] = Panics \<and>
   ExpandOnly demo_os [[]] = Returns (Inl (ErrorString ''no path provided''))"
  using ExpandPath_empty_string_panics [of demo_os "''/home/u''"]
  by (simp add: demo_simps)

subsection \<open>Default configuration\<close>

text \<open>
  C8. The package's \<open>init\<close> sets the default database path to \<open>gosuki/gosuki.db\<close> joined
  to \<open>$XDG_DATA_HOME\<close> when that variable is non-empty, and joined to
  \<open>~/.local/share\<close> (the home directory joined with \<open>.local\<close> and \<open>share\<close>) otherwise;
  the default synchronisation interval is 4 seconds (in nanoseconds); and the
  configuration is registered under the name \<open>database\<close>, through which the
  configuration system can override both fields.
\<close>

theorem init_default_config:
  "(Getenv os ''XDG_DATA_HOME'' \<noteq> [] \<longrightarrow>
      init os = Inr \<lparr>Config = \<lparr>SyncInterval = 4 * 1000000000,
                                cfgPath = Join os [Getenv os ''XDG_DATA_HOME'', ''gosuki/gosuki.db'']\<rparr>,
                      configurators = [(''database'',
                         \<lparr>SyncInterval = 4 * 1000000000,
                          cfgPath = Join os [Getenv os ''XDG_DATA_HOME'', ''gosuki/gosuki.db'']\<rparr>)]\<rparr>) \<and>
   (Getenv os ''XDG_DATA_HOME'' = [] \<and> UserHomeDir os = Inr home \<longrightarrow>
      init os = Inr \<lparr>Config = \<lparr>SyncInterval = 4 * 1000000000,
                                cfgPath = Join os [Join os [home, ''.local'', ''share''], ''gosuki/gosuki.db'']\<rparr>,
                      configurators = [(''database'',
                         \<lparr>SyncInterval = 4 * 1000000000,
                          cfgPath = Join os [Join os [home, ''.local'', ''share''], ''gosuki/gosuki.db'']\<rparr>)]\<rparr>)"
  by (simp add: init_def GetDataDir_def Second_def Let_def)

theorem init_default_config_witness:
  "Getenv xdg_os ''XDG_DATA_HOME'' = ''/srv/data'' \<and>
   cfgPath (Config (projr (init xdg_os))) = ''/srv/data/gosuki/gosuki.db'' \<and>
   Getenv demo_os ''XDG_DATA_HOME'' = [] \<and> UserHomeDir demo_os = Inr ''/home/u'' \<and>
   cfgPath (Config (projr (init demo_os))) = ''/home/u/.local/share/gosuki/gosuki.db'' \<and>
   SyncInterval (Config (projr (init demo_os))) = 4000000000 \<and>
   map fst (configurators (projr (init demo_os))) = [''database'']"
  using init_default_config [of xdg_os] init_default_config [of demo_os "''/home/u''"]
  by (simp add: xdg_os_def demo_simps)

subsection \<open>Database errors\<close>

text \<open>
  C10. \<open>DBErr\<close> discards its \<open>dbName\<close> argument: the \<open>DBError\<close> it builds has an empty
  \<open>DBName\<close>, its message does not depend on \<open>dbName\<close>, and the message is \<open><>: \<close>
  followed by the text of the wrapped error.
\<close>

theorem DBErr_discards_dbName:
  "DBName (DBErr dbName err) = [] \<and>
   Err (DBErr dbName err) = err \<and>
   Error (DBErr dbName err) = Error (DBErr [] err) \<and>
   Error (DBErr dbName err) =
     ''<>: '' @ (case err of None \<Rightarrow> ''%!s(<nil>)'' | Some e \<Rightarrow> Error e)"
  by (cases err) (simp_all add: DBErr_def)

end
